theory Spec2Isabelle
  imports Complex_Main
begin

section \<open>LFC calibration: a shallow embedding of \<open>calibration_functions.py\<close>\<close>

text \<open>
  The Python module works on NumPy arrays of IEEE doubles.  In this development a double
  is idealised as a \<^typ>\<open>real\<close>: arithmetic is exact, and the two special values that the
  code produces on purpose or by an empty mean are kept apart in the type \<open>pyfloat\<close>
  (\<open>NaN\<close>, or a finite number).  Infinities are not modelled.  Python integers are
  \<^typ>\<open>int\<close>, comb mode numbers and list positions are \<^typ>\<open>nat\<close>.  Every exception the
  code can raise is a value of \<open>error\<close>, returned as \<open>Inl\<close>.
\<close>

datatype error = ValueError | IndexError | TypeError | AssertionError | KeyError | NameError

datatype pyfloat = NaN | Fin real

subsection \<open>Python and NumPy primitives used by the module\<close>

text \<open>\<open>int(x)\<close> on a float: truncation toward zero.\<close>

definition py_int :: "real \<Rightarrow> int" where
  "py_int x = (if x < 0 then \<lceil>x\<rceil> else \<lfloor>x\<rfloor>)"

text \<open>\<open>int(x)\<close> raises \<open>ValueError\<close> on not-a-number.\<close>

fun int_of_pyfloat :: "pyfloat \<Rightarrow> error + int" where
  "int_of_pyfloat NaN = Inl ValueError"
| "int_of_pyfloat (Fin x) = Inr (py_int x)"

text \<open>\<open>np.diff\<close> of a one-dimensional integer array.\<close>

fun np_diff :: "int list \<Rightarrow> int list" where
  "np_diff (a # b # xs) = (b - a) # np_diff (b # xs)"
| "np_diff _ = []"

text \<open>\<open>np.mean\<close>: not-a-number (with a warning, no exception) on an empty array.\<close>

definition np_mean :: "real list \<Rightarrow> pyfloat" where
  "np_mean xs = (if xs = [] then NaN else Fin (sum_list xs / real (length xs)))"

subsection \<open>Peak window builder: \<open>get_peak_index_ranges\<close>\<close>

text \<open>
  The loop \<open>for nPeak in peak_locs\<close>, appending \<open>[int(start), int(end)]\<close> to
  \<open>peak_index_ranges\<close>.  \<open>peak_range_size/2\<close> is Python's true division.
\<close>

fun ranges_loop :: "real \<Rightarrow> int list \<Rightarrow> (int \<times> int) list \<Rightarrow> (int \<times> int) list" where
  "ranges_loop peak_range_size [] peak_index_ranges = peak_index_ranges"
| "ranges_loop peak_range_size (nPeak # rest) peak_index_ranges =
     (let start = real_of_int nPeak - peak_range_size / 2;
          end = real_of_int nPeak + peak_range_size / 2
      in ranges_loop peak_range_size rest (peak_index_ranges @ [(py_int start, py_int end)]))"

text \<open>
  The default argument \<open>np.nan\<close> stands for an omitted size; then the size is
  \<open>int(np.mean(np.diff(peak_locs)))\<close>.
\<close>

definition get_peak_index_ranges :: "int list \<Rightarrow> pyfloat \<Rightarrow> error + (int \<times> int) list" where
  "get_peak_index_ranges peak_locs peak_range_size =
     (case peak_range_size of
        NaN \<Rightarrow>
          (case int_of_pyfloat (np_mean (map real_of_int (np_diff peak_locs))) of
             Inl e \<Rightarrow> Inl e
           | Inr mean_sep \<Rightarrow> Inr (ranges_loop (real_of_int mean_sep) peak_locs []))
      | Fin given_size \<Rightarrow> Inr (ranges_loop given_size peak_locs []))"

subsection \<open>True wavelengths of the comb: \<open>true_wavel\<close>\<close>

definition true_wavel :: "nat \<Rightarrow> real" where
  "true_wavel n =
     (let c = 299792458;
          v_rep = 14000000000;
          v_offset = 6190000000;
          f = v_rep * real n + v_offset;
          wavel = c / f * 10000000000
      in wavel)"

subsection \<open>Wavelength matcher: \<open>get_true_wavel\<close>\<close>

text \<open>
  NumPy indexing of a one-dimensional array with one integer: a negative index counts
  from the end, anything outside raises \<open>IndexError\<close>.
\<close>

definition np_index :: "'a list \<Rightarrow> int \<Rightarrow> error + 'a" where
  "np_index a k =
     (if 0 \<le> k \<and> k < int (length a) then Inr (a ! nat k)
      else if k < 0 \<and> - int (length a) \<le> k then Inr (a ! nat (int (length a) + k))
      else Inl IndexError)"

text \<open>\<open>data_wavel_given[peak_locs]\<close>: indexing with an array of integers.\<close>

fun np_take :: "'a list \<Rightarrow> int list \<Rightarrow> error + 'a list" where
  "np_take xs [] = Inr []"
| "np_take xs (i # rest) =
     (case np_index xs i of
        Inl e \<Rightarrow> Inl e
      | Inr v \<Rightarrow> (case np_take xs rest of Inl e \<Rightarrow> Inl e | Inr vs \<Rightarrow> Inr (v # vs)))"

text \<open>
  The generation loop \<open>while wavel_true[-1][0] > wavel_given_min * (1 - 0.001)\<close>.  Nothing
  bounds the number of rounds, so the loop is a partial function: \<open>None\<close> is a run that
  never leaves the loop.
\<close>

partial_function (option) gen_loop :: "real \<Rightarrow> (real \<times> nat) list \<Rightarrow> nat \<Rightarrow> (real \<times> nat) list option" where
  "gen_loop wavel_given_min wavel_true n =
     (if fst (last wavel_true) > wavel_given_min * (1 - 0.001)
      then gen_loop wavel_given_min (wavel_true @ [(true_wavel (n + 1), n + 1)]) (n + 1)
      else Some wavel_true)"

text \<open>
  The candidates: the generated pairs, cut off at \<open>wavel_given_max * (1 + 0.001)\<close> by the
  boolean mask, then reversed.
\<close>

definition candidates :: "real \<Rightarrow> real \<Rightarrow> (real \<times> nat) list option" where
  "candidates wavel_given_min wavel_given_max =
     (case gen_loop wavel_given_min [(true_wavel 0, 0), (true_wavel 1, 1)] 1 of
        None \<Rightarrow> None
      | Some wavel_true \<Rightarrow>
          Some (rev (filter (\<lambda>row. fst row < wavel_given_max * (1 + 0.001)) wavel_true)))"

text \<open>
  Python's \<open>min(iterable, key=...)\<close>: \<open>ValueError\<close> on an empty iterable; otherwise the
  items are visited in order and the current best is replaced only by an item whose key
  is strictly smaller.
\<close>

fun min_loop :: "('a \<Rightarrow> real) \<Rightarrow> 'a \<Rightarrow> 'a list \<Rightarrow> 'a" where
  "min_loop key best [] = best"
| "min_loop key best (x # xs) = (if key x < key best then min_loop key x xs else min_loop key best xs)"

definition py_min :: "('a \<Rightarrow> real) \<Rightarrow> 'a list \<Rightarrow> error + 'a" where
  "py_min key xs = (case xs of [] \<Rightarrow> Inl ValueError | x # rest \<Rightarrow> Inr (min_loop key x rest))"

text \<open>
  \<open>next((idx for idx, val in np.ndenumerate(a) if val == min_val), None)[0]\<close>: the first
  position holding \<open>min_val\<close>; subscripting the default \<open>None\<close> raises \<open>TypeError\<close>.
\<close>

fun first_index :: "real list \<Rightarrow> real \<Rightarrow> nat \<Rightarrow> error + nat" where
  "first_index [] min_val idx = Inl TypeError"
| "first_index (val # rest) min_val idx =
     (if val = min_val then Inr idx else first_index rest min_val (idx + 1))"

text \<open>The body of \<open>for lambd_given in wavel_given\<close>.\<close>

definition match_one :: "(real \<times> nat) list \<Rightarrow> real \<Rightarrow> error + (real \<times> nat)" where
  "match_one wavel_true lambd_given =
     (case py_min (\<lambda>x. \<bar>x - lambd_given\<bar>) (map fst wavel_true) of
        Inl e \<Rightarrow> Inl e
      | Inr min_val \<Rightarrow>
          (case first_index (map fst wavel_true) min_val 0 of
             Inl e \<Rightarrow> Inl e
           | Inr min_val_index \<Rightarrow> Inr (min_val, map snd wavel_true ! min_val_index)))"

fun match_loop :: "(real \<times> nat) list \<Rightarrow> real list \<Rightarrow> (real \<times> nat) list \<Rightarrow> error + (real \<times> nat) list" where
  "match_loop wavel_true [] wavel_true_match = Inr wavel_true_match"
| "match_loop wavel_true (lambd_given # rest) wavel_true_match =
     (case match_one wavel_true lambd_given of
        Inl e \<Rightarrow> Inl e
      | Inr row \<Rightarrow> match_loop wavel_true rest (wavel_true_match @ [row]))"

text \<open>
  \<open>get_true_wavel\<close>.  The range minimum is the first nominal wavelength at the peaks, the
  range maximum the last one.  The outer \<open>option\<close> is the generation loop's: \<open>None\<close> means
  the call never returns.
\<close>

definition get_true_wavel :: "real list \<Rightarrow> int list \<Rightarrow> (error + (real \<times> nat) list) option" where
  "get_true_wavel data_wavel_given peak_locs =
     (case np_take data_wavel_given peak_locs of
        Inl e \<Rightarrow> Some (Inl e)
      | Inr wavel_given \<Rightarrow>
          (case np_index wavel_given 0 of
             Inl e \<Rightarrow> Some (Inl e)
           | Inr wavel_given_min \<Rightarrow>
               (case np_index wavel_given (- 1) of
                  Inl e \<Rightarrow> Some (Inl e)
                | Inr wavel_given_max \<Rightarrow>
                    (case candidates wavel_given_min wavel_given_max of
                       None \<Rightarrow> None
                     | Some wavel_true \<Rightarrow> Some (match_loop wavel_true wavel_given [])))))"

subsection \<open>Peak shape fitter: \<open>fit_peaks\<close>\<close>

text \<open>Sequencing of calls that may raise: the first exception ends the computation.\<close>

definition bind_err :: "error + 'a \<Rightarrow> ('a \<Rightarrow> error + 'b) \<Rightarrow> error + 'b" where
  "bind_err m f = (case m of Inl e \<Rightarrow> Inl e | Inr v \<Rightarrow> f v)"

text \<open>\<open>np.arange(start, stop)\<close> on integers.\<close>

definition np_arange :: "int \<Rightarrow> int \<Rightarrow> int list" where
  "np_arange start stop = [start..stop - 1]"

text \<open>
  The slice \<open>a[start:stop]\<close> of a one-dimensional array: a negative bound counts from the
  end, and both bounds are clipped to the array.
\<close>

definition py_slice :: "'a list \<Rightarrow> int \<Rightarrow> int \<Rightarrow> 'a list" where
  "py_slice a start stop =
     (let n = int (length a);
          lo = (if start < 0 then max (start + n) 0 else min start n);
          hi = (if stop < 0 then max (stop + n) 0 else min stop n)
      in take (nat (hi - lo)) (drop (nat lo) a))"

text \<open>
  A binary NumPy operation on two one-dimensional arrays: equal lengths, or one of the
  two of length one and repeated; any other pair of shapes raises \<open>ValueError\<close>.
\<close>

definition np_broadcast :: "(real \<Rightarrow> real \<Rightarrow> real) \<Rightarrow> real list \<Rightarrow> real list \<Rightarrow> error + real list" where
  "np_broadcast f xs ys =
     (if length xs = length ys then Inr (map2 f xs ys)
      else if length xs = 1 then Inr (map (f (hd xs)) ys)
      else if length ys = 1 then Inr (map (\<lambda>x. f x (hd ys)) xs)
      else Inl ValueError)"

text \<open>
  The line shape.  \<open>z**P\<close> is the real power of a non-negative base (\<open>powr\<close>); a zero
  \<open>sigma\<close> gives not-a-number in NumPy and is outside this idealisation.
\<close>

definition super_gauss :: "real \<Rightarrow> real \<Rightarrow> real \<Rightarrow> real \<Rightarrow> real \<Rightarrow> real \<Rightarrow> real \<Rightarrow> real" where
  "super_gauss x A mu sigma P C b =
     (let z = (x - mu)\<^sup>2 / (2 * sigma\<^sup>2)
      in A * exp (- (z powr P)) + C + b * (x - mu))"

text \<open>
  The objective \<open>model_chi(A, mu, sigma, P, C)\<close> of one window, as the minimiser calls it:
  with a vector of five parameters.
\<close>

definition model_chi :: "int list \<Rightarrow> real list \<Rightarrow> real list \<Rightarrow> real list \<Rightarrow> error + real" where
  "model_chi x y ey par =
     (case par of
        [A, mu, sigma, P, C] \<Rightarrow>
          (let y_fit = map (\<lambda>xi. super_gauss (real_of_int xi) A mu sigma P C 0) x
           in bind_err (np_broadcast (\<lambda>a b. a - b) y y_fit) (\<lambda>residual.
              bind_err (np_broadcast (\<lambda>a b. a / b) residual ey) (\<lambda>pull.
              Inr (sum_list (map (\<lambda>t. t\<^sup>2) pull)))))
      | _ \<Rightarrow> Inl TypeError)"

text \<open>
  The minimiser is an external collaborator.  Its state after \<open>migrad\<close>: the values and
  the errors of the parameters, by name and in the order of the parameters, the minimum
  found, and whether the minimum is valid.
\<close>

record minuit =
  param_values :: "(string \<times> real) list"
  param_errors :: "(string \<times> real) list"
  fval :: real
  is_valid :: bool

type_synonym migrad = "(real list \<Rightarrow> error + real) \<Rightarrow> (string \<times> pyfloat) list \<Rightarrow> error + minuit"

text \<open>\<open>minuit.values['A']\<close>: a name that is not a parameter raises \<open>KeyError\<close>.\<close>

definition by_name :: "(string \<times> 'a) list \<Rightarrow> string \<Rightarrow> error + 'a" where
  "by_name view name = (case map_of view name of None \<Rightarrow> Inl KeyError | Some v \<Rightarrow> Inr v)"

text \<open>One row of \<open>peak_fits\<close>, in the order of the sixteen entries appended.\<close>

record peak_fit =
  A_val :: real
  A_err :: real
  mu_val :: real
  mu_err :: real
  sigma_val :: real
  sigma_err :: real
  C_val :: real
  C_err :: real
  Chi2_val :: real
  ndof :: int
  converged :: bool
  index_start :: int
  index_end :: int
  Prob :: pyfloat
  P_val :: real
  P_err :: real

text \<open>
  What one window hands to the minimiser: the objective on the window's pixels and the
  seed values.  \<open>mu_init = np.mean(x)\<close> is not-a-number on an empty window.
\<close>

definition fit_problem ::
  "real list \<Rightarrow> real list \<Rightarrow> int \<times> int \<Rightarrow> (real list \<Rightarrow> error + real) \<times> (string \<times> pyfloat) list" where
  "fit_problem data_spec data_spec_err peak_index_range =
     (let (index_start, index_end) = peak_index_range;
          x = np_arange index_start index_end;
          y = py_slice data_spec index_start index_end;
          ey = py_slice data_spec_err index_start index_end;
          A_init = 0.87;
          mu_init = np_mean (map real_of_int x);
          sigma_init = - 1.8;
          P_init = 1.3;
          C_init = 0.12
      in (model_chi x y ey,
          [(''A'', Fin A_init), (''mu'', mu_init), (''sigma'', Fin sigma_init),
           (''P'', Fin P_init), (''C'', Fin C_init)]))"

text \<open>
  The body of \<open>for peak_index_range in peak_index_ranges\<close>.  \<open>chi2_sf\<close> stands for
  \<open>scipy.stats.chi2.sf\<close>.
\<close>

definition fit_one ::
  "migrad \<Rightarrow> (real \<Rightarrow> int \<Rightarrow> pyfloat) \<Rightarrow> real list \<Rightarrow> real list \<Rightarrow> int \<times> int \<Rightarrow> error + peak_fit" where
  "fit_one migrad chi2_sf data_spec data_spec_err peak_index_range =
     (let problem = fit_problem data_spec data_spec_err peak_index_range;
          x = np_arange (fst peak_index_range) (snd peak_index_range)
      in bind_err (migrad (fst problem) (snd problem)) (\<lambda>minuit.
         bind_err (by_name (param_values minuit) ''mu'') (\<lambda>mu_fit.
         bind_err (by_name (param_errors minuit) ''mu'') (\<lambda>sigma_mu_fit.
         let Npoints = int (length x);
             ndof = Npoints - int (length (param_values minuit))
         in
         bind_err (by_name (param_values minuit) ''A'') (\<lambda>A_v.
         bind_err (by_name (param_errors minuit) ''A'') (\<lambda>A_e.
         bind_err (by_name (param_values minuit) ''sigma'') (\<lambda>sigma_v.
         bind_err (by_name (param_errors minuit) ''sigma'') (\<lambda>sigma_e.
         bind_err (by_name (param_values minuit) ''C'') (\<lambda>C_v.
         bind_err (by_name (param_errors minuit) ''C'') (\<lambda>C_e.
         bind_err (by_name (param_values minuit) ''P'') (\<lambda>P_v.
         bind_err (by_name (param_errors minuit) ''P'') (\<lambda>P_e.
         Inr \<lparr>A_val = A_v, A_err = A_e, mu_val = mu_fit, mu_err = sigma_mu_fit,
              sigma_val = sigma_v, sigma_err = sigma_e, C_val = C_v, C_err = C_e,
              Chi2_val = fval minuit, ndof = ndof, converged = is_valid minuit,
              index_start = fst peak_index_range, index_end = snd peak_index_range,
              Prob = chi2_sf (fval minuit) ndof, P_val = P_v, P_err = P_e\<rparr>))))))))))))"

text \<open>
  The loop of \<open>fit_peaks\<close>.  Its parameter \<open>print\<close> hides the built-in function of that
  name, so with \<open>print=True\<close> the statement \<open>print(f"...")\<close> after the first fit calls a
  boolean and raises \<open>TypeError\<close>; the default is \<open>False\<close>.
\<close>

fun fit_loop ::
  "migrad \<Rightarrow> (real \<Rightarrow> int \<Rightarrow> pyfloat) \<Rightarrow> real list \<Rightarrow> real list \<Rightarrow> bool \<Rightarrow>
     (int \<times> int) list \<Rightarrow> peak_fit list \<Rightarrow> error + peak_fit list" where
  "fit_loop migrad chi2_sf data_spec data_spec_err print [] peak_fits = Inr peak_fits"
| "fit_loop migrad chi2_sf data_spec data_spec_err print (peak_index_range # rest) peak_fits =
     bind_err (fit_one migrad chi2_sf data_spec data_spec_err peak_index_range) (\<lambda>row.
       if print then Inl TypeError
       else fit_loop migrad chi2_sf data_spec data_spec_err print rest (peak_fits @ [row]))"

definition fit_peaks ::
  "migrad \<Rightarrow> (real \<Rightarrow> int \<Rightarrow> pyfloat) \<Rightarrow> real list \<Rightarrow> real list \<Rightarrow> (int \<times> int) list \<Rightarrow>
     bool \<Rightarrow> error + peak_fit list" where
  "fit_peaks migrad chi2_sf data_spec data_spec_err peak_index_ranges print =
     fit_loop migrad chi2_sf data_spec data_spec_err print peak_index_ranges []"

text \<open>
  What the fitter relies on from the minimiser.  First: a state that \<open>migrad\<close> returns
  has one value and one error per parameter it was given, under the same names.
  Second: when the objective can be evaluated at every parameter vector, \<open>migrad\<close>
  returns a state, valid or not; it raises nothing of its own.
\<close>

definition one_value_per_parameter :: "migrad \<Rightarrow> bool" where
  "one_value_per_parameter migrad \<longleftrightarrow>
     (\<forall>fcn init m. migrad fcn init = Inr m \<longrightarrow>
        map fst (param_values m) = map fst init \<and> map fst (param_errors m) = map fst init)"


text \<open>
  A minimiser that satisfies both and never converges: it stays at the seed (zero for a
  not-a-number seed) and reports an invalid minimum.
\<close>

definition stuck_migrad :: migrad where
  "stuck_migrad fcn init =
     Inr \<lparr>param_values = map (\<lambda>(name, v). (name, case v of NaN \<Rightarrow> 0 | Fin r \<Rightarrow> r)) init,
          param_errors = map (\<lambda>(name, v). (name, 0)) init,
          fval = 0,
          is_valid = False\<rparr>"

subsection \<open>Order-level orchestrator: \<open>fit_all_peaks_in_all_orders\<close>\<close>

text \<open>
  The exposure, as read from the file (reading it is outside the model): three arrays
  indexed by order, each holding one array per order.
\<close>

record exposure =
  spectrum :: "real list list"
  uncertainty :: "real list list"
  wavelength :: "real list list"

text \<open>
  One entry of \<open>results\<close>: \<open>[order, peak_fits, wavel_true, data_wavel[peak_locs]]\<close>.  The
  rows of \<open>peak_fits\<close> are the sixteen numbers of \<open>np.asarray\<close> (the flag as 1 or 0), the
  rows of \<open>wavel_true\<close> a wavelength and its mode number.
\<close>

type_synonym order_result = "nat \<times> pyfloat list list \<times> pyfloat list list \<times> pyfloat list"

definition fit_row :: "peak_fit \<Rightarrow> pyfloat list" where
  "fit_row r =
     [Fin (A_val r), Fin (A_err r), Fin (mu_val r), Fin (mu_err r), Fin (sigma_val r),
      Fin (sigma_err r), Fin (C_val r), Fin (C_err r), Fin (Chi2_val r),
      Fin (real_of_int (ndof r)), Fin (if converged r then 1 else 0),
      Fin (real_of_int (index_start r)), Fin (real_of_int (index_end r)), Prob r,
      Fin (P_val r), Fin (P_err r)]"

text \<open>The components of the pipeline, to record which of them one order calls.\<close>

datatype component = Detector | Window_Builder | Fitter | Matcher

text \<open>
  The body of \<open>for order in range(40, 76)\<close>: the components called, in order, and the
  outcome (an entry of \<open>results\<close>, an exception, or \<open>None\<close> when the matcher never
  returns).  \<open>func_find_peaks\<close> stands for component 0 of what the detector returns, the
  peak positions; the detector itself is SciPy's.
\<close>

definition process_order ::
  "(real list \<Rightarrow> int \<Rightarrow> real \<Rightarrow> int list) \<Rightarrow> migrad \<Rightarrow> (real \<Rightarrow> int \<Rightarrow> pyfloat) \<Rightarrow>
     bool \<Rightarrow> real option \<Rightarrow> exposure \<Rightarrow> nat \<Rightarrow> component list \<times> (error + order_result) option" where
  "process_order func_find_peaks migrad chi2_sf correct_errors custom_error_factor data order =
     (case np_index (spectrum data) (int order) of
        Inl e \<Rightarrow> ([], Some (Inl e))
      | Inr data_spec \<Rightarrow>
     (case np_index (uncertainty data) (int order) of
        Inl e \<Rightarrow> ([], Some (Inl e))
      | Inr uncertainty_row \<Rightarrow>
     (case np_index (wavelength data) (int order) of
        Inl e \<Rightarrow> ([], Some (Inl e))
      | Inr data_wavel \<Rightarrow>
     (let data_spec_err =
            (if correct_errors
             then (case custom_error_factor of
                     Some factor \<Rightarrow> map (\<lambda>u. u * factor) uncertainty_row
                   | None \<Rightarrow> map (\<lambda>u. u * sqrt 3) uncertainty_row)
             else uncertainty_row);
          peak_locs = func_find_peaks data_spec 11 0.15
      in if length peak_locs < 10
         then ([Detector], Some (Inr (order, [[NaN]], [[NaN]], [NaN])))
         else
     (case get_peak_index_ranges peak_locs NaN of
        Inl e \<Rightarrow> ([Detector, Window_Builder], Some (Inl e))
      | Inr peak_index_ranges \<Rightarrow>
     (case fit_peaks migrad chi2_sf data_spec data_spec_err peak_index_ranges False of
        Inl e \<Rightarrow> ([Detector, Window_Builder, Fitter], Some (Inl e))
      | Inr peak_fits \<Rightarrow>
     (case get_true_wavel data_wavel peak_locs of
        None \<Rightarrow> ([Detector, Window_Builder, Fitter, Matcher], None)
      | Some (Inl e) \<Rightarrow> ([Detector, Window_Builder, Fitter, Matcher], Some (Inl e))
      | Some (Inr wavel_true) \<Rightarrow>
     (case np_take data_wavel peak_locs of
        Inl e \<Rightarrow> ([Detector, Window_Builder, Fitter, Matcher], Some (Inl e))
      | Inr wavel_at_peaks \<Rightarrow>
          ([Detector, Window_Builder, Fitter, Matcher],
           Some (Inr (order, map fit_row peak_fits,
                      map (\<lambda>row. [Fin (fst row), Fin (real (snd row))]) wavel_true,
                      map Fin wavel_at_peaks)))))))))))"

text \<open>The loop over the orders: an exception, or a matcher that never returns, ends it.\<close>

fun orders_loop ::
  "(real list \<Rightarrow> int \<Rightarrow> real \<Rightarrow> int list) \<Rightarrow> migrad \<Rightarrow> (real \<Rightarrow> int \<Rightarrow> pyfloat) \<Rightarrow>
     bool \<Rightarrow> real option \<Rightarrow> exposure \<Rightarrow> nat list \<Rightarrow> order_result list \<Rightarrow>
     (error + order_result list) option" where
  "orders_loop func_find_peaks migrad chi2_sf correct_errors custom_error_factor data [] results =
     Some (Inr results)"
| "orders_loop func_find_peaks migrad chi2_sf correct_errors custom_error_factor data (order # rest) results =
     (case snd (process_order func_find_peaks migrad chi2_sf correct_errors custom_error_factor data order) of
        None \<Rightarrow> None
      | Some (Inl e) \<Rightarrow> Some (Inl e)
      | Some (Inr entry) \<Rightarrow>
          orders_loop func_find_peaks migrad chi2_sf correct_errors custom_error_factor data rest
            (results @ [entry]))"

definition fit_all_peaks_in_all_orders ::
  "(real list \<Rightarrow> int \<Rightarrow> real \<Rightarrow> int list) \<Rightarrow> migrad \<Rightarrow> (real \<Rightarrow> int \<Rightarrow> pyfloat) \<Rightarrow>
     bool \<Rightarrow> real option \<Rightarrow> exposure \<Rightarrow> (error + order_result list) option" where
  "fit_all_peaks_in_all_orders func_find_peaks migrad chi2_sf correct_errors custom_error_factor data =
     orders_loop func_find_peaks migrad chi2_sf correct_errors custom_error_factor data [40..<76] []"

subsection \<open>Calibration polynomials: \<open>get_calib_poly_func\<close>\<close>

text \<open>
  A model function receives either one number or an array.  NumPy arithmetic with scalar
  coefficients acts on every element of an array.
\<close>

datatype ndarray = Scalar real | Array "ndarray list"

fun nd_map :: "(real \<Rightarrow> real) \<Rightarrow> ndarray \<Rightarrow> ndarray" where
  "nd_map g (Scalar r) = Scalar (g r)"
| "nd_map g (Array xs) = Array (map (nd_map g) xs)"

text \<open>
  The nine module-level polynomials.  Each takes \<open>x\<close> and its own number of
  coefficients; a call with another number of arguments raises \<open>TypeError\<close>.
\<close>

definition calib_poly_func_1 :: "ndarray \<Rightarrow> real list \<Rightarrow> error + ndarray" where
  "calib_poly_func_1 x par =
     (case par of
        [c0, c1] \<Rightarrow>
          Inr (nd_map (\<lambda>t. c0 + c1 * t) x)
      | _ \<Rightarrow> Inl TypeError)"

definition calib_poly_func_2 :: "ndarray \<Rightarrow> real list \<Rightarrow> error + ndarray" where
  "calib_poly_func_2 x par =
     (case par of
        [c0, c1, c2] \<Rightarrow>
          Inr (nd_map (\<lambda>t. c0 + c1 * t + c2 * t ^ 2) x)
      | _ \<Rightarrow> Inl TypeError)"

definition calib_poly_func_3 :: "ndarray \<Rightarrow> real list \<Rightarrow> error + ndarray" where
  "calib_poly_func_3 x par =
     (case par of
        [c0, c1, c2, c3] \<Rightarrow>
          Inr (nd_map (\<lambda>t. c0 + c1 * t + c2 * t ^ 2 + c3 * t ^ 3) x)
      | _ \<Rightarrow> Inl TypeError)"

definition calib_poly_func_4 :: "ndarray \<Rightarrow> real list \<Rightarrow> error + ndarray" where
  "calib_poly_func_4 x par =
     (case par of
        [c0, c1, c2, c3, c4] \<Rightarrow>
          Inr (nd_map (\<lambda>t. c0 + c1 * t + c2 * t ^ 2 + c3 * t ^ 3 + c4 * t ^ 4) x)
      | _ \<Rightarrow> Inl TypeError)"

definition calib_poly_func_5 :: "ndarray \<Rightarrow> real list \<Rightarrow> error + ndarray" where
  "calib_poly_func_5 x par =
     (case par of
        [c0, c1, c2, c3, c4, c5] \<Rightarrow>
          Inr (nd_map (\<lambda>t. c0 + c1 * t + c2 * t ^ 2 + c3 * t ^ 3 + c4 * t ^ 4 + c5 * t ^ 5) x)
      | _ \<Rightarrow> Inl TypeError)"

definition calib_poly_func_6 :: "ndarray \<Rightarrow> real list \<Rightarrow> error + ndarray" where
  "calib_poly_func_6 x par =
     (case par of
        [c0, c1, c2, c3, c4, c5, c6] \<Rightarrow>
          Inr (nd_map (\<lambda>t. c0 + c1 * t + c2 * t ^ 2 + c3 * t ^ 3 + c4 * t ^ 4 + c5 * t ^ 5 + c6 * t ^ 6) x)
      | _ \<Rightarrow> Inl TypeError)"

definition calib_poly_func_7 :: "ndarray \<Rightarrow> real list \<Rightarrow> error + ndarray" where
  "calib_poly_func_7 x par =
     (case par of
        [c0, c1, c2, c3, c4, c5, c6, c7] \<Rightarrow>
          Inr (nd_map (\<lambda>t. c0 + c1 * t + c2 * t ^ 2 + c3 * t ^ 3 + c4 * t ^ 4 + c5 * t ^ 5 + c6 * t ^ 6 + c7 * t ^ 7) x)
      | _ \<Rightarrow> Inl TypeError)"

definition calib_poly_func_8 :: "ndarray \<Rightarrow> real list \<Rightarrow> error + ndarray" where
  "calib_poly_func_8 x par =
     (case par of
        [c0, c1, c2, c3, c4, c5, c6, c7, c8] \<Rightarrow>
          Inr (nd_map (\<lambda>t. c0 + c1 * t + c2 * t ^ 2 + c3 * t ^ 3 + c4 * t ^ 4 + c5 * t ^ 5 + c6 * t ^ 6 + c7 * t ^ 7 + c8 * t ^ 8) x)
      | _ \<Rightarrow> Inl TypeError)"

definition calib_poly_func_9 :: "ndarray \<Rightarrow> real list \<Rightarrow> error + ndarray" where
  "calib_poly_func_9 x par =
     (case par of
        [c0, c1, c2, c3, c4, c5, c6, c7, c8, c9] \<Rightarrow>
          Inr (nd_map (\<lambda>t. c0 + c1 * t + c2 * t ^ 2 + c3 * t ^ 3 + c4 * t ^ 4 + c5 * t ^ 5 + c6 * t ^ 6 + c7 * t ^ 7 + c8 * t ^ 8 + c9 * t ^ 9) x)
      | _ \<Rightarrow> Inl TypeError)"

text \<open>
  \<open>get_calib_poly_func\<close>: the assertion \<open>(degree == np.arange(1, 10)).any()\<close>, then the
  lookup of the global \<open>calib_poly_func_<degree>\<close> by its name.
\<close>

definition get_calib_poly_func :: "int \<Rightarrow> error + (ndarray \<Rightarrow> real list \<Rightarrow> error + ndarray)" where
  "get_calib_poly_func degree =
     (if list_ex (\<lambda>k. degree = k) (np_arange 1 10)
      then (case map_of
          [(1, calib_poly_func_1),
           (2, calib_poly_func_2),
           (3, calib_poly_func_3),
           (4, calib_poly_func_4),
           (5, calib_poly_func_5),
           (6, calib_poly_func_6),
           (7, calib_poly_func_7),
           (8, calib_poly_func_8),
           (9, calib_poly_func_9)] degree of
              None \<Rightarrow> Inl NameError
            | Some function \<Rightarrow> Inr function)
      else Inl AssertionError)"

subsection \<open>Chi-square helper: \<open>compute_f\<close>\<close>






section \<open>Properties\<close>

subsection \<open>Window builder\<close>

lemma ranges_loop_map:
  "ranges_loop s ps acc =
     acc @ map (\<lambda>p. (py_int (real_of_int p - s / 2), py_int (real_of_int p + s / 2))) ps"
  by (induction ps arbitrary: acc) (simp_all add: Let_def)

lemma py_int_toward_zero: "py_int x = (if x < 0 then - 1 else 1) * \<lfloor>\<bar>x\<bar>\<rfloor>"
  by (simp add: py_int_def ceiling_def)

lemma sum_list_np_diff:
  "sum_list (map real_of_int (np_diff ps)) = (\<Sum>i<length ps - 1. real_of_int (ps ! Suc i - ps ! i))"
proof (induction ps rule: np_diff.induct)
  case (1 a b xs)
  have "(\<Sum>i<Suc (length xs). real_of_int ((a # b # xs) ! Suc i - (a # b # xs) ! i)) =
        real_of_int ((a # b # xs) ! Suc 0 - (a # b # xs) ! 0) +
        (\<Sum>i<length xs. real_of_int ((a # b # xs) ! Suc (Suc i) - (a # b # xs) ! Suc i))"
    by (rule sum.lessThan_Suc_shift)
  with 1 show ?case by simp
qed simp_all

lemma length_np_diff: "length (np_diff ps) = length ps - 1"
  by (induction ps rule: np_diff.induct) simp_all

text \<open>
  C3.  With a window size \<open>s\<close>, the builder returns one pair per peak, in the order of the
  peaks; the pair of peak \<open>p\<close> is \<open>(int(p - s/2), int(p + s/2))\<close>, each bound truncated
  toward zero on its own (sign times the floor of the absolute value).  For the peaks
  \<open>[100, 200, 300]\<close> and no size given, the windows are \<open>(50,150), (150,250), (250,350)\<close>.
\<close>

theorem C3_windows:
  "(\<exists>ws. get_peak_index_ranges peak_locs (Fin s) = Inr ws \<and> length ws = length peak_locs \<and>
      (\<forall>i<length peak_locs.
         ws ! i =
           ((if real_of_int (peak_locs ! i) - s / 2 < 0 then - 1 else 1)
              * \<lfloor>\<bar>real_of_int (peak_locs ! i) - s / 2\<bar>\<rfloor>,
            (if real_of_int (peak_locs ! i) + s / 2 < 0 then - 1 else 1)
              * \<lfloor>\<bar>real_of_int (peak_locs ! i) + s / 2\<bar>\<rfloor>)))
   \<and> get_peak_index_ranges [100, 200, 300] NaN = Inr [(50, 150), (150, 250), (250, 350)]"
proof (intro conjI)
  show "\<exists>ws. get_peak_index_ranges peak_locs (Fin s) = Inr ws \<and> length ws = length peak_locs \<and>
      (\<forall>i<length peak_locs.
         ws ! i =
           ((if real_of_int (peak_locs ! i) - s / 2 < 0 then - 1 else 1)
              * \<lfloor>\<bar>real_of_int (peak_locs ! i) - s / 2\<bar>\<rfloor>,
            (if real_of_int (peak_locs ! i) + s / 2 < 0 then - 1 else 1)
              * \<lfloor>\<bar>real_of_int (peak_locs ! i) + s / 2\<bar>\<rfloor>))"
    by (simp add: get_peak_index_ranges_def ranges_loop_map py_int_toward_zero)
  show "get_peak_index_ranges [100, 200, 300] NaN = Inr [(50, 150), (150, 250), (250, 350)]"
    by (simp add: get_peak_index_ranges_def np_mean_def py_int_def)
qed

theorem C3_windows_witness:
  "\<exists>ws. get_peak_index_ranges [7, -7] (Fin 5) = Inr ws \<and> length ws = 2 \<and>
      ws ! 0 = (4, 9) \<and> ws ! 1 = (-9, -4)"
proof -
  from C3_windows [of "[7, -7]" 5]
  obtain ws where ws: "get_peak_index_ranges [7, -7] (Fin 5) = Inr ws" "length ws = length [7, -7::int]"
    and nth: "\<forall>i<length [7, -7::int].
         ws ! i =
           ((if real_of_int ([7, -7] ! i) - 5 / 2 < 0 then - 1 else 1)
              * \<lfloor>\<bar>real_of_int ([7, -7] ! i) - 5 / 2\<bar>\<rfloor>,
            (if real_of_int ([7, -7] ! i) + 5 / 2 < 0 then - 1 else 1)
              * \<lfloor>\<bar>real_of_int ([7, -7] ! i) + 5 / 2\<bar>\<rfloor>)"
    by blast
  from nth have "ws ! 0 = (4, 9)" by simp
  moreover from nth have "ws ! 1 = (-9, -4)" by simp
  ultimately show ?thesis using ws by simp
qed

text \<open>
  C7.  With the size omitted, fewer than two peaks end in \<open>ValueError\<close> (the mean of no
  differences is not-a-number, which \<open>int\<close> refuses); with at least two peaks the size is
  the mean of the consecutive differences, truncated to an integer, and the windows are
  those of that size.
\<close>

theorem C7_inferred_size:
  "(length peak_locs < 2 \<longrightarrow> get_peak_index_ranges peak_locs NaN = Inl ValueError) \<and>
   (2 \<le> length peak_locs \<longrightarrow>
      get_peak_index_ranges peak_locs NaN =
        get_peak_index_ranges peak_locs
          (Fin (real_of_int (py_int
             ((\<Sum>i<length peak_locs - 1. real_of_int (peak_locs ! Suc i - peak_locs ! i))
                / real (length peak_locs - 1))))))"
proof (intro conjI impI)
  assume "length peak_locs < 2"
  then have "np_diff peak_locs = []"
    by (cases peak_locs rule: np_diff.cases) simp_all
  then show "get_peak_index_ranges peak_locs NaN = Inl ValueError"
    by (simp add: get_peak_index_ranges_def np_mean_def)
next
  assume "2 \<le> length peak_locs"
  then have "np_diff peak_locs \<noteq> []"
    by (cases peak_locs rule: np_diff.cases) simp_all
  then show "get_peak_index_ranges peak_locs NaN =
        get_peak_index_ranges peak_locs
          (Fin (real_of_int (py_int
             ((\<Sum>i<length peak_locs - 1. real_of_int (peak_locs ! Suc i - peak_locs ! i))
                / real (length peak_locs - 1)))))"
    by (simp add: get_peak_index_ranges_def np_mean_def sum_list_np_diff length_np_diff)
qed

theorem C7_inferred_size_witness:
  "get_peak_index_ranges [5] NaN = Inl ValueError \<and>
   get_peak_index_ranges [10, 21, 40] NaN = Inr [(2, 17), (13, 28), (32, 47)]"
proof -
  have "get_peak_index_ranges [5] NaN = Inl ValueError"
    using C7_inferred_size [of "[5]"] by simp
  moreover have "(\<Sum>i<length [10, 21, 40::int] - 1.
      real_of_int ([10, 21, 40] ! Suc i - [10, 21, 40] ! i)) = 30"
    by (simp add: lessThan_Suc numeral_2_eq_2)
  then have "get_peak_index_ranges [10, 21, 40] NaN = get_peak_index_ranges [10, 21, 40] (Fin 15)"
    using C7_inferred_size [of "[10, 21, 40]"] by (simp add: py_int_def)
  moreover have "get_peak_index_ranges [10, 21, 40] (Fin 15) = Inr [(2, 17), (13, 28), (32, 47)]"
    by (simp add: get_peak_index_ranges_def py_int_def)
  ultimately show ?thesis by simp
qed

subsection \<open>Comb equation\<close>

text \<open>
  C2.  The wavelength of comb mode \<open>n\<close> is \<open>c / (v_rep n + v_offset) 10^10\<close> with
  \<open>c = 299792458\<close>, \<open>v_rep = 14 10^9\<close> and \<open>v_offset = 6.19 10^9\<close>, for every \<open>n\<close>, and so
  for \<open>n = 0\<close> and \<open>n = 1\<close>.
\<close>

theorem C2_comb_equation:
  "true_wavel n = 299792458 / (14 * 10 ^ 9 * real n + 6.19 * 10 ^ 9) * 10 ^ 10 \<and>
   true_wavel 0 = 299792458 / (14 * 10 ^ 9 * 0 + 6.19 * 10 ^ 9) * 10 ^ 10 \<and>
   true_wavel 1 = 299792458 / (14 * 10 ^ 9 * 1 + 6.19 * 10 ^ 9) * 10 ^ 10"
  by (simp add: true_wavel_def)

subsection \<open>The comb wavelengths decrease to zero\<close>

lemma true_wavel_eq: "true_wavel n = 2997924580000000000 / (14000000000 * real n + 6190000000)"
  by (simp add: true_wavel_def)

lemma true_wavel_pos: "0 < true_wavel n"
  by (simp add: true_wavel_eq add_nonneg_pos)

lemma true_wavel_less: "m < n \<Longrightarrow> true_wavel n < true_wavel m"
  unfolding true_wavel_eq
  by (rule divide_strict_left_mono) (simp_all add: add_nonneg_pos)

lemma true_wavel_le: "m \<le> n \<Longrightarrow> true_wavel n \<le> true_wavel m"
  using true_wavel_less [of m n] by (cases "m = n") simp_all


lemma true_wavel_small:
  assumes "0 < t"
  shows "\<exists>N. true_wavel N \<le> t"
proof -
  obtain N :: nat where N: "2997924580000000000 / (14000000000 * t) < real N"
    using reals_Archimedean2 by blast
  from N assms have "2997924580000000000 < real N * (14000000000 * t)"
    by (simp add: pos_divide_less_eq mult.commute)
  then have "2997924580000000000 \<le> t * (14000000000 * real N + 6190000000)"
    using assms by (simp add: algebra_simps)
  then have "true_wavel N \<le> t"
    unfolding true_wavel_eq by (simp add: pos_divide_le_eq add_nonneg_pos)
  then show ?thesis ..
qed

lemma gen_loop_run:
  assumes "0 < wmin"
  shows "\<exists>M\<ge>n. gen_loop wmin (xs @ [(true_wavel n, n)]) n =
            Some (xs @ map (\<lambda>k. (true_wavel k, k)) [n..<Suc M]) \<and>
          true_wavel M \<le> wmin * (1 - 0.001) \<and>
          (\<forall>k. n \<le> k \<and> k < M \<longrightarrow> wmin * (1 - 0.001) < true_wavel k)"
proof -
  from assms have "0 < wmin * (1 - 0.001)" by simp
  then obtain N where N: "true_wavel N \<le> wmin * (1 - 0.001)"
    using true_wavel_small by blast
  show ?thesis
  proof (induction "N - n" arbitrary: n xs rule: less_induct)
    case less
    show ?case
    proof (cases "wmin * (1 - 0.001) < true_wavel n")
      case False
      then have "gen_loop wmin (xs @ [(true_wavel n, n)]) n = Some (xs @ [(true_wavel n, n)])"
        by (subst gen_loop.simps) simp
      with False show ?thesis
        by (intro exI [of _ n]) simp
    next
      case True
      with N have "true_wavel N < true_wavel n" by simp
      then have "n < N"
        using true_wavel_le [of N n] by (cases "n < N") simp_all
      then have "N - Suc n < N - n" by simp
      from less [OF this, of "xs @ [(true_wavel n, n)]"]
      obtain M where M: "Suc n \<le> M"
        "gen_loop wmin ((xs @ [(true_wavel n, n)]) @ [(true_wavel (Suc n), Suc n)]) (Suc n) =
           Some ((xs @ [(true_wavel n, n)]) @ map (\<lambda>k. (true_wavel k, k)) [Suc n..<Suc M])"
        "true_wavel M \<le> wmin * (1 - 0.001)"
        "\<forall>k. Suc n \<le> k \<and> k < M \<longrightarrow> wmin * (1 - 0.001) < true_wavel k"
        by blast
      have "gen_loop wmin (xs @ [(true_wavel n, n)]) n =
            gen_loop wmin ((xs @ [(true_wavel n, n)]) @ [(true_wavel (Suc n), Suc n)]) (Suc n)"
        using True by (subst gen_loop.simps) simp
      also have "\<dots> = Some (xs @ map (\<lambda>k. (true_wavel k, k)) [n..<Suc M])"
        using M(1,2) by (simp add: upt_conv_Cons)
      finally have run: "gen_loop wmin (xs @ [(true_wavel n, n)]) n =
            Some (xs @ map (\<lambda>k. (true_wavel k, k)) [n..<Suc M])" .
      have "\<forall>k. n \<le> k \<and> k < M \<longrightarrow> wmin * (1 - 0.001) < true_wavel k"
      proof (intro allI impI)
        fix k assume k: "n \<le> k \<and> k < M"
        show "wmin * (1 - 0.001) < true_wavel k"
        proof (cases "k = n")
          case True
          with \<open>wmin * (1 - 0.001) < true_wavel n\<close> show ?thesis by simp
        next
          case False
          with k have "Suc n \<le> k \<and> k < M" by simp
          with M(4) show ?thesis by blast
        qed
      qed
      with run M(1,3) show ?thesis
        by (intro exI [of _ M]) simp
    qed
  qed
qed

lemma gen_loop_diverges_aux:
  assumes "gen_loop wmin xs n = Some ys"
  shows "\<not> (wmin \<le> 0 \<and> 0 < fst (last xs))"
proof -
  have step: "\<not> (a \<le> 0 \<and> 0 < fst (last b))"
    if IH: "\<And>a b c y. gl a b c = Some y \<Longrightarrow> \<not> (a \<le> 0 \<and> 0 < fst (last b))"
    and eq: "(if fst (last b) > a * (1 - 0.001)
              then gl a (b @ [(true_wavel (c + 1), c + 1)]) (c + 1) else Some b) = Some y"
    for gl :: "real \<Rightarrow> (real \<times> nat) list \<Rightarrow> nat \<Rightarrow> (real \<times> nat) list option" and a b c y
  proof
    assume a: "a \<le> 0 \<and> 0 < fst (last b)"
    then have "a * (1 - 0.001) \<le> 0"
      by (simp add: mult_le_0_iff)
    with a have "a * (1 - 0.001) < fst (last b)"
      by linarith
    with eq have "gl a (b @ [(true_wavel (c + 1), c + 1)]) (c + 1) = Some y"
      by simp
    from IH [OF this] a show False
      by (simp add: true_wavel_pos)
  qed
  show ?thesis
    by (rule gen_loop.raw_induct
          [where P = "\<lambda>a b c y. \<not> (a \<le> 0 \<and> 0 < fst (last b))", OF step assms])
qed

lemma gen_loop_diverges:
  "wmin \<le> 0 \<Longrightarrow> 0 < fst (last xs) \<Longrightarrow> gen_loop wmin xs n = None"
  using gen_loop_diverges_aux [of wmin xs n] by (cases "gen_loop wmin xs n") auto

subsection \<open>First minimum and the matching loop\<close>

lemma min_loop_split:
  "\<exists>ys zs. best # xs = ys @ min_loop key best xs # zs \<and>
     (\<forall>y\<in>set ys. key (min_loop key best xs) < key y) \<and>
     (\<forall>z\<in>set zs. key (min_loop key best xs) \<le> key z)"
proof (induction xs arbitrary: best)
  case Nil
  show ?case by (intro exI [of _ "[]"]) simp
next
  case (Cons x xs)
  show ?case
  proof (cases "key x < key best")
    case True
    define m where "m = min_loop key x xs"
    from Cons [of x] obtain ys zs where s: "x # xs = ys @ m # zs"
      "\<forall>y\<in>set ys. key m < key y" "\<forall>z\<in>set zs. key m \<le> key z"
      unfolding m_def by blast
    have "key m \<le> key x"
    proof (cases ys)
      case Nil
      with s(1) show ?thesis by simp
    next
      case (Cons y ys')
      with s(1) have "x \<in> set ys" by simp
      with s(2) show ?thesis by fastforce
    qed
    with True have "key m < key best" by simp
    with s have "best # x # xs = (best # ys) @ m # zs \<and>
        (\<forall>y\<in>set (best # ys). key m < key y) \<and> (\<forall>z\<in>set zs. key m \<le> key z)"
      by simp
    moreover have "min_loop key best (x # xs) = m"
      using True by (simp add: m_def)
    ultimately show ?thesis by metis
  next
    case False
    define m where "m = min_loop key best xs"
    from Cons [of best] obtain ys zs where s: "best # xs = ys @ m # zs"
      "\<forall>y\<in>set ys. key m < key y" "\<forall>z\<in>set zs. key m \<le> key z"
      unfolding m_def by blast
    have m: "min_loop key best (x # xs) = m"
      using False by (simp add: m_def)
    show ?thesis
    proof (cases ys)
      case Nil
      with s(1) have "m = best" "zs = xs" by simp_all
      with s(3) False have "best # x # xs = [] @ m # (x # xs) \<and>
        (\<forall>y\<in>set []. key m < key y) \<and> (\<forall>z\<in>set (x # xs). key m \<le> key z)"
        by simp
      with m show ?thesis by metis
    next
      case (Cons y ys')
      with s(1) have y: "y = best" and xs: "xs = ys' @ m # zs" by simp_all
      from s(2) Cons y have "key m < key best" by simp
      with False have "key m < key x" by simp
      with s(2,3) Cons y xs have "best # x # xs = (best # x # ys') @ m # zs \<and>
        (\<forall>y\<in>set (best # x # ys'). key m < key y) \<and> (\<forall>z\<in>set zs. key m \<le> key z)"
        by simp
      with m show ?thesis by metis
    qed
  qed
qed

lemma first_index_skip:
  "min_val \<notin> set ys \<Longrightarrow> first_index (ys @ min_val # zs) min_val idx = Inr (idx + length ys)"
  by (induction ys arbitrary: idx) auto

lemma match_one_empty: "match_one [] lambd_given = Inl ValueError"
  by (simp add: match_one_def py_min_def)

lemma match_one_first_nearest:
  assumes "cs \<noteq> []"
  shows "\<exists>i<length cs. match_one cs w = Inr (cs ! i) \<and>
           (\<forall>j<i. \<bar>fst (cs ! i) - w\<bar> < \<bar>fst (cs ! j) - w\<bar>) \<and>
           (\<forall>j<length cs. \<bar>fst (cs ! i) - w\<bar> \<le> \<bar>fst (cs ! j) - w\<bar>)"
proof -
  define key where "key = (\<lambda>x :: real. \<bar>x - w\<bar>)"
  from assms obtain c rest where cs: "map fst cs = c # rest"
    by (cases cs) auto
  define m where "m = min_loop key c rest"
  from min_loop_split [of c rest key] obtain ys zs where s:
    "c # rest = ys @ m # zs" "\<forall>y\<in>set ys. key m < key y" "\<forall>z\<in>set zs. key m \<le> key z"
    unfolding m_def by blast
  have len: "length cs = length ys + Suc (length zs)"
    using cs s(1) by (metis length_map length_append length_Cons)
  have i: "length ys < length cs" using len by simp
  have nth_fst: "fst (cs ! j) = (ys @ m # zs) ! j" if "j < length cs" for j
    using cs s(1) that by (metis nth_map)
  have at: "fst (cs ! length ys) = m"
    using nth_fst [OF i] by simp
  have "m \<notin> set ys" using s(2) by fastforce
  then have idx: "first_index (map fst cs) m 0 = Inr (length ys)"
    using cs s(1) by (simp add: first_index_skip)
  have "match_one cs w = Inr (m, map snd cs ! length ys)"
    using cs idx unfolding match_one_def py_min_def m_def key_def by simp
  also have "(m, map snd cs ! length ys) = cs ! length ys"
    using at i by (simp add: prod_eq_iff)
  finally have res: "match_one cs w = Inr (cs ! length ys)" .
  have before: "\<forall>j<length ys. \<bar>fst (cs ! length ys) - w\<bar> < \<bar>fst (cs ! j) - w\<bar>"
  proof (intro allI impI)
    fix j assume j: "j < length ys"
    then have "fst (cs ! j) = ys ! j"
      using nth_fst [of j] i by (simp add: nth_append)
    moreover from j have "ys ! j \<in> set ys" by simp
    ultimately show "\<bar>fst (cs ! length ys) - w\<bar> < \<bar>fst (cs ! j) - w\<bar>"
      using s(2) at unfolding key_def by fastforce
  qed
  have all: "\<forall>j<length cs. \<bar>fst (cs ! length ys) - w\<bar> \<le> \<bar>fst (cs ! j) - w\<bar>"
  proof (intro allI impI)
    fix j assume j: "j < length cs"
    consider "j < length ys" | "j = length ys" | "length ys < j" by linarith
    then show "\<bar>fst (cs ! length ys) - w\<bar> \<le> \<bar>fst (cs ! j) - w\<bar>"
    proof cases
      case 1
      with before show ?thesis by fastforce
    next
      case 2
      then show ?thesis by simp
    next
      case 3
      then have "fst (cs ! j) = zs ! (j - Suc (length ys))"
        using nth_fst [OF j] by (simp add: nth_append nth_Cons')
      moreover from 3 j len have "zs ! (j - Suc (length ys)) \<in> set zs" by simp
      ultimately show ?thesis
        using s(3) at unfolding key_def by fastforce
    qed
  qed
  from i res before all show ?thesis by blast
qed

lemma match_loop_rows:
  assumes "cs \<noteq> []"
  shows "\<exists>ms. match_loop cs ws acc = Inr (acc @ ms) \<and> length ms = length ws \<and>
           (\<forall>k<length ws. match_one cs (ws ! k) = Inr (ms ! k))"
proof (induction ws arbitrary: acc)
  case Nil
  show ?case by simp
next
  case (Cons w ws)
  from match_one_first_nearest [OF assms, of w] obtain row where row: "match_one cs w = Inr row"
    by blast
  from Cons [of "acc @ [row]"] obtain ms where ms:
    "match_loop cs ws (acc @ [row]) = Inr ((acc @ [row]) @ ms)" "length ms = length ws"
    "\<forall>k<length ws. match_one cs (ws ! k) = Inr (ms ! k)"
    by blast
  have "\<forall>k<length (w # ws). match_one cs ((w # ws) ! k) = Inr ((row # ms) ! k)"
    using row ms(3) by (simp add: nth_Cons')
  with row ms(1,2) show ?case
    by (intro exI [of _ "row # ms"]) simp
qed

lemma match_loop_empty: "match_loop [] (w # ws) acc = Inl ValueError"
  by (simp add: match_one_empty)

subsection \<open>The candidate list\<close>

lemma np_index_first: "xs \<noteq> [] \<Longrightarrow> np_index xs 0 = Inr (hd xs)"
  by (cases xs) (simp_all add: np_index_def)

lemma np_index_last: "xs \<noteq> [] \<Longrightarrow> np_index xs (- 1) = Inr (last xs)"
  by (cases xs) (simp_all add: np_index_def last_conv_nth nat_diff_distrib')

lemma get_true_wavel_unfold:
  assumes "np_take data_wavel_given peak_locs = Inr wavel_given" and "wavel_given \<noteq> []"
  shows "get_true_wavel data_wavel_given peak_locs =
           (case candidates (hd wavel_given) (last wavel_given) of
              None \<Rightarrow> None
            | Some wavel_true \<Rightarrow> Some (match_loop wavel_true wavel_given []))"
  using assms by (simp add: get_true_wavel_def np_index_first np_index_last)

lemma np_take_length: "np_take xs is = Inr vs \<Longrightarrow> length vs = length is"
  by (induction "is" arbitrary: vs) (auto split: sum.splits)

lemma candidates_run:
  assumes "0 < wmin"
  shows "\<exists>M\<ge>1. candidates wmin wmax =
            Some (rev (filter (\<lambda>row. fst row < wmax * (1 + 0.001))
                    (map (\<lambda>k. (true_wavel k, k)) [0..<Suc M]))) \<and>
          true_wavel M \<le> wmin * (1 - 0.001) \<and>
          (\<forall>k. 1 \<le> k \<and> k < M \<longrightarrow> wmin * (1 - 0.001) < true_wavel k)"
proof -
  from gen_loop_run [OF assms, of 1 "[(true_wavel 0, 0)]"]
  obtain M where M: "1 \<le> M"
    "gen_loop wmin ([(true_wavel 0, 0)] @ [(true_wavel 1, 1)]) 1 =
       Some ([(true_wavel 0, 0)] @ map (\<lambda>k. (true_wavel k, k)) [1..<Suc M])"
    "true_wavel M \<le> wmin * (1 - 0.001)"
    "\<forall>k. 1 \<le> k \<and> k < M \<longrightarrow> wmin * (1 - 0.001) < true_wavel k"
    by blast
  have "[(true_wavel 0, 0)] @ map (\<lambda>k. (true_wavel k, k)) [1..<Suc M] =
        map (\<lambda>k. (true_wavel k, k)) [0..<Suc M]"
    by (subst upt_conv_Cons [of 0 "Suc M"]) simp_all
  with M(2) have "candidates wmin wmax =
      Some (rev (filter (\<lambda>row. fst row < wmax * (1 + 0.001))
              (map (\<lambda>k. (true_wavel k, k)) [0..<Suc M])))"
    by (simp add: candidates_def)
  with M(1,3,4) show ?thesis by blast
qed

lemma retained_mem:
  "c \<in> set (rev (filter (\<lambda>row. fst row < b) (map (\<lambda>k. (true_wavel k, k)) [0..<N]))) \<longleftrightarrow>
     (\<exists>n<N. c = (true_wavel n, n) \<and> true_wavel n < b)"
  by auto



lemma get_true_wavel_run:
  assumes take: "np_take data_wavel_given peak_locs = Inr wavel_given"
    and ne: "wavel_given \<noteq> []"
    and pos: "0 < hd wavel_given"
    and ord: "hd wavel_given \<le> last wavel_given"
  shows "\<exists>M cs ms. 1 \<le> M \<and>
           true_wavel M \<le> hd wavel_given * (1 - 0.001) \<and>
           (\<forall>k. 1 \<le> k \<and> k < M \<longrightarrow> hd wavel_given * (1 - 0.001) < true_wavel k) \<and>
           cs = rev (filter (\<lambda>row. fst row < last wavel_given * (1 + 0.001))
                  (map (\<lambda>k. (true_wavel k, k)) [0..<Suc M])) \<and>
           candidates (hd wavel_given) (last wavel_given) = Some cs \<and> cs \<noteq> [] \<and>
           get_true_wavel data_wavel_given peak_locs = Some (Inr ms) \<and>
           length ms = length wavel_given \<and>
           (\<forall>k<length wavel_given. match_one cs (wavel_given ! k) = Inr (ms ! k))"
proof -
  from candidates_run [OF pos, of "last wavel_given"]
  obtain M where M: "1 \<le> M"
    "candidates (hd wavel_given) (last wavel_given) =
       Some (rev (filter (\<lambda>row. fst row < last wavel_given * (1 + 0.001))
               (map (\<lambda>k. (true_wavel k, k)) [0..<Suc M])))"
    "true_wavel M \<le> hd wavel_given * (1 - 0.001)"
    "\<forall>k. 1 \<le> k \<and> k < M \<longrightarrow> hd wavel_given * (1 - 0.001) < true_wavel k"
    by blast
  define cs where "cs = rev (filter (\<lambda>row. fst row < last wavel_given * (1 + 0.001))
               (map (\<lambda>k. (true_wavel k, k)) [0..<Suc M]))"
  have "hd wavel_given * (1 - 0.001) < last wavel_given * (1 + 0.001)"
    using pos ord by simp
  with M(3) have "true_wavel M < last wavel_given * (1 + 0.001)"
    by simp
  then have "(true_wavel M, M) \<in> set cs"
    unfolding cs_def retained_mem by blast
  then have cs_ne: "cs \<noteq> []" by auto
  from match_loop_rows [OF cs_ne, of wavel_given "[]"]
  obtain ms where ms: "match_loop cs wavel_given [] = Inr ms" "length ms = length wavel_given"
    "\<forall>k<length wavel_given. match_one cs (wavel_given ! k) = Inr (ms ! k)"
    by auto
  have "get_true_wavel data_wavel_given peak_locs = Some (Inr ms)"
    using get_true_wavel_unfold [OF take ne] M(2) ms(1) by (simp add: cs_def)
  with M cs_ne ms(2,3) show ?thesis
    unfolding cs_def by blast
qed

subsection \<open>Wavelength matcher\<close>




text \<open>
  C10 (as amended).  The matcher takes the first nominal wavelength at the peaks as the
  range minimum and the last as the range maximum.  When the first is positive and not
  above the last, the candidate list is not empty and the matcher returns one pair per
  peak.  For some input with the first above the last, the candidate list is empty and
  the minimum over it raises \<open>ValueError\<close>.
\<close>

theorem C10_range_ends:
  "(np_take data_wavel_given peak_locs = Inr wavel_given \<and> wavel_given \<noteq> [] \<longrightarrow>
      get_true_wavel data_wavel_given peak_locs =
        (case candidates (hd wavel_given) (last wavel_given) of
           None \<Rightarrow> None
         | Some wavel_true \<Rightarrow> Some (match_loop wavel_true wavel_given []))) \<and>
   (np_take data_wavel_given peak_locs = Inr wavel_given \<and> wavel_given \<noteq> [] \<and>
    0 < hd wavel_given \<and> hd wavel_given \<le> last wavel_given \<longrightarrow>
      (\<exists>cs ms. candidates (hd wavel_given) (last wavel_given) = Some cs \<and> cs \<noteq> [] \<and>
         get_true_wavel data_wavel_given peak_locs = Some (Inr ms) \<and>
         length ms = length peak_locs)) \<and>
   (\<exists>d p w. np_take d p = Inr w \<and> w \<noteq> [] \<and> last w < hd w \<and>
      candidates (hd w) (last w) = Some [] \<and> get_true_wavel d p = Some (Inl ValueError))"
proof (intro conjI impI)
  assume "np_take data_wavel_given peak_locs = Inr wavel_given \<and> wavel_given \<noteq> []"
  then show "get_true_wavel data_wavel_given peak_locs =
        (case candidates (hd wavel_given) (last wavel_given) of
           None \<Rightarrow> None
         | Some wavel_true \<Rightarrow> Some (match_loop wavel_true wavel_given []))"
    by (simp add: get_true_wavel_unfold)
next
  assume a: "np_take data_wavel_given peak_locs = Inr wavel_given \<and> wavel_given \<noteq> [] \<and>
    0 < hd wavel_given \<and> hd wavel_given \<le> last wavel_given"
  then have take: "np_take data_wavel_given peak_locs = Inr wavel_given"
    and ne: "wavel_given \<noteq> []" and pos: "0 < hd wavel_given"
    and ord: "hd wavel_given \<le> last wavel_given"
    by simp_all
  from get_true_wavel_run [OF take ne pos ord] np_take_length [OF take]
  show "\<exists>cs ms. candidates (hd wavel_given) (last wavel_given) = Some cs \<and> cs \<noteq> [] \<and>
         get_true_wavel data_wavel_given peak_locs = Some (Inr ms) \<and>
         length ms = length peak_locs"
    by auto
next
  have take: "np_take [200000000, 100000000 :: real] [0, 1] = Inr [200000000, 100000000]"
    by (simp add: np_index_def)
  have gen: "gen_loop 200000000 [(true_wavel 0, 0), (true_wavel 1, 1)] 1 =
      Some [(true_wavel 0, 0), (true_wavel 1, 1)]"
    by (subst gen_loop.simps) (simp add: true_wavel_def)
  have cand: "candidates 200000000 100000000 = Some []"
    unfolding candidates_def gen by (simp add: true_wavel_def)
  have "get_true_wavel [200000000, 100000000] [0, 1] = Some (Inl ValueError)"
    unfolding get_true_wavel_def
    by (simp add: np_index_def cand match_one_def py_min_def)
  with take cand
  have "np_take [200000000, 100000000 :: real] [0, 1] = Inr [200000000, 100000000] \<and>
      [200000000, 100000000 :: real] \<noteq> [] \<and>
      last [200000000, 100000000 :: real] < hd [200000000, 100000000 :: real] \<and>
      candidates (hd [200000000, 100000000]) (last [200000000, 100000000]) = Some [] \<and>
      get_true_wavel [200000000, 100000000] [0, 1] = Some (Inl ValueError)"
    by simp
  then show "\<exists>d p w. np_take d p = Inr w \<and> w \<noteq> [] \<and> last w < hd w \<and>
      candidates (hd w) (last w) = Some [] \<and> get_true_wavel d p = Some (Inl ValueError)"
    by blast
qed

text \<open>The theorem of C10 at two peaks with nominal wavelengths \<open>10^8\<close> and \<open>1.2 10^8\<close>.\<close>

theorem C10_range_ends_witness:
  "\<exists>cs ms. candidates 100000000 120000000 = Some cs \<and> cs \<noteq> [] \<and>
     get_true_wavel [100000000, 120000000] [0, 1] = Some (Inr ms) \<and> length ms = 2"
proof -
  have take: "np_take [100000000, 120000000 :: real] [0, 1] = Inr [100000000, 120000000]"
    by (simp add: np_index_def)
  from C10_range_ends [of "[100000000, 120000000]" "[0, 1]" "[100000000, 120000000]"]
  have "np_take [100000000, 120000000 :: real] [0, 1] = Inr [100000000, 120000000] \<and>
      [100000000, 120000000 :: real] \<noteq> [] \<and> 0 < hd [100000000, 120000000 :: real] \<and>
      hd [100000000, 120000000 :: real] \<le> last [100000000, 120000000] \<longrightarrow>
      (\<exists>cs ms. candidates (hd [100000000, 120000000]) (last [100000000, 120000000]) = Some cs \<and>
         cs \<noteq> [] \<and> get_true_wavel [100000000, 120000000] [0, 1] = Some (Inr ms) \<and>
         length ms = length [0, 1 :: int])"
    by blast
  with take show ?thesis by (simp add: numeral_2_eq_2)
qed

text \<open>
  C10 as stated fails without positivity: with the single nominal wavelength 0 (first
  equal to last) every generated wavelength stays above the threshold 0, and the
  generation loop never ends.
\<close>

theorem C10_nonpositive_counterexample:
  "np_take [0 :: real] [0] = Inr [0] \<and> hd [0 :: real] \<le> last [0] \<and>
   get_true_wavel [0] [0] = None"
proof -
  have "gen_loop 0 [(true_wavel 0, 0), (true_wavel 1, 1)] 1 = None"
    by (rule gen_loop_diverges) (simp_all add: true_wavel_pos)
  then show ?thesis
    by (simp add: get_true_wavel_def np_index_def candidates_def)
qed

subsection \<open>Peak shape fitter\<close>

lemma stuck_one_value: "one_value_per_parameter stuck_migrad"
  by (auto simp: one_value_per_parameter_def stuck_migrad_def)


lemma length_np_arange: "length (np_arange a b) = nat (b - a)"
  by (simp add: np_arange_def)



lemma bind_err_Inr: "bind_err m f = Inr r \<longleftrightarrow> (\<exists>v. m = Inr v \<and> f v = Inr r)"
  by (cases m) (simp_all add: bind_err_def)

lemma snd_fit_problem:
  "snd (fit_problem data_spec data_spec_err w) =
     [(''A'', Fin 0.87), (''mu'', np_mean (map real_of_int (np_arange (fst w) (snd w)))),
      (''sigma'', Fin (- 1.8)), (''P'', Fin 1.3), (''C'', Fin 0.12)]"
  by (cases w) (simp add: fit_problem_def Let_def)


text \<open>What a returned row holds.\<close>

lemma fit_one_row:
  assumes "fit_one migrad chi2_sf data_spec data_spec_err w = Inr row"
  shows "\<exists>m. migrad (fst (fit_problem data_spec data_spec_err w))
                (snd (fit_problem data_spec data_spec_err w)) = Inr m \<and>
           ndof row = int (length (np_arange (fst w) (snd w))) - int (length (param_values m)) \<and>
           converged row = is_valid m \<and> Chi2_val row = fval m \<and>
           index_start row = fst w \<and> index_end row = snd w \<and>
           by_name (param_values m) ''A'' = Inr (A_val row) \<and>
           by_name (param_values m) ''mu'' = Inr (mu_val row) \<and>
           by_name (param_values m) ''sigma'' = Inr (sigma_val row) \<and>
           by_name (param_values m) ''P'' = Inr (P_val row) \<and>
           by_name (param_values m) ''C'' = Inr (C_val row)"
  using assms
  by (auto simp: fit_one_def bind_err_Inr Let_def)



lemma fit_loop_rows:
  "fit_loop migrad chi2_sf data_spec data_spec_err print ws acc = Inr rows \<Longrightarrow>
     \<exists>new. rows = acc @ new \<and> length new = length ws \<and>
       (\<forall>i<length ws. fit_one migrad chi2_sf data_spec data_spec_err (ws ! i) = Inr (new ! i))"
proof (induction ws arbitrary: acc)
  case Nil
  then show ?case by simp
next
  case (Cons w ws)
  from Cons.prems obtain row where row: "fit_one migrad chi2_sf data_spec data_spec_err w = Inr row"
    and rest: "fit_loop migrad chi2_sf data_spec data_spec_err print ws (acc @ [row]) = Inr rows"
    by (auto simp: bind_err_Inr split: if_splits)
  from Cons.IH [OF rest] obtain new where new: "rows = (acc @ [row]) @ new" "length new = length ws"
    "\<forall>i<length ws. fit_one migrad chi2_sf data_spec data_spec_err (ws ! i) = Inr (new ! i)"
    by blast
  have "\<forall>i<length (w # ws).
      fit_one migrad chi2_sf data_spec data_spec_err ((w # ws) ! i) = Inr ((row # new) ! i)"
    using row new(3) by (simp add: nth_Cons')
  with new(1,2) show ?case
    by (intro exI [of _ "row # new"]) simp
qed


text \<open>With \<open>print=True\<close> and at least one window, the fitter returns no rows.\<close>

lemma fit_loop_print_raises:
  "fit_loop migrad chi2_sf data_spec data_spec_err True (w # ws) acc \<noteq> Inr rows"
  by (simp add: bind_err_def split: sum.splits)


text \<open>
  C4.  Whenever the fitter returns its rows, there is one row per window, and the degrees
  of freedom of a row are the number of pixels of its window, \<open>len(np.arange(start, end))\<close>,
  minus 5: the minimiser holds one value for each of the five parameters A, mu, sigma,
  P, C it was given.
\<close>

theorem C4_degrees_of_freedom:
  assumes contract: "one_value_per_parameter migrad"
    and fits: "fit_peaks migrad chi2_sf data_spec data_spec_err peak_index_ranges print = Inr peak_fits"
  shows "length peak_fits = length peak_index_ranges \<and>
         (\<forall>i<length peak_index_ranges.
            ndof (peak_fits ! i) =
              int (length (np_arange (fst (peak_index_ranges ! i)) (snd (peak_index_ranges ! i)))) - 5 \<and>
            length (np_arange (fst (peak_index_ranges ! i)) (snd (peak_index_ranges ! i))) =
              nat (snd (peak_index_ranges ! i) - fst (peak_index_ranges ! i)))"
proof -
  from fit_loop_rows [OF fits [unfolded fit_peaks_def]]
  have len: "length peak_fits = length peak_index_ranges"
    and rows: "\<forall>i<length peak_index_ranges.
      fit_one migrad chi2_sf data_spec data_spec_err (peak_index_ranges ! i) = Inr (peak_fits ! i)"
    by auto
  have "ndof (peak_fits ! i) =
      int (length (np_arange (fst (peak_index_ranges ! i)) (snd (peak_index_ranges ! i)))) - 5"
    if "i < length peak_index_ranges" for i
  proof -
    from rows that
    have "fit_one migrad chi2_sf data_spec data_spec_err (peak_index_ranges ! i) = Inr (peak_fits ! i)"
      by blast
    from fit_one_row [OF this] obtain m where
      m: "migrad (fst (fit_problem data_spec data_spec_err (peak_index_ranges ! i)))
            (snd (fit_problem data_spec data_spec_err (peak_index_ranges ! i))) = Inr m"
      and n: "ndof (peak_fits ! i) =
        int (length (np_arange (fst (peak_index_ranges ! i)) (snd (peak_index_ranges ! i)))) -
        int (length (param_values m))"
      by blast
    from contract m
    have "map fst (param_values m) = map fst (snd (fit_problem data_spec data_spec_err (peak_index_ranges ! i)))"
      unfolding one_value_per_parameter_def by blast
    then have "length (map fst (param_values m)) = 5"
      by (simp add: snd_fit_problem)
    then have "length (param_values m) = 5" by simp
    with n show ?thesis by simp
  qed
  with len show ?thesis
    by (simp add: length_np_arange)
qed


text \<open>The theorem of C4 on one window of seven pixels: two degrees of freedom.\<close>

theorem C4_degrees_of_freedom_witness:
  "\<exists>peak_fits.
     fit_peaks stuck_migrad (\<lambda>chi2 n. NaN) [1, 2, 3, 4, 5, 6, 7, 8] [1, 1, 1, 1, 1, 1, 1, 1] [(0, 7)]
       False = Inr peak_fits \<and>
     length peak_fits = 1 \<and> ndof (peak_fits ! 0) = 2"
proof -
  obtain peak_fits where fits:
    "fit_peaks stuck_migrad (\<lambda>chi2 n. NaN) [1, 2, 3, 4, 5, 6, 7, 8] [1, 1, 1, 1, 1, 1, 1, 1] [(0, 7)]
       False = Inr peak_fits"
    by (simp add: fit_peaks_def fit_one_def fit_problem_def stuck_migrad_def bind_err_def
        by_name_def Let_def)
  from C4_degrees_of_freedom [OF stuck_one_value fits]
  have "length peak_fits = 1 \<and> ndof (peak_fits ! 0) = 2"
    by (simp add: np_arange_def)
  with fits show ?thesis by blast
qed



subsection \<open>Calibration polynomials, \<open>compute_f\<close> and the orchestrator\<close>

lemma mem_1_9: "list_ex (\<lambda>k. degree = k) (np_arange 1 10) \<longleftrightarrow> 1 \<le> degree \<and> degree \<le> 9"
  by (auto simp: np_arange_def list_ex_iff)

lemma calib_poly_func_1_sum:
  assumes "length par = 2"
  shows "calib_poly_func_1 x par = Inr (nd_map (\<lambda>t. \<Sum>k\<le>1. par ! k * t ^ k) x)"
proof -
  from assms obtain c0 c1 where par: "par = [c0, c1]"
    by (auto simp: length_Suc_conv eval_nat_numeral)
  have "(\<lambda>t. \<Sum>k\<le>1. par ! k * t ^ k) = (\<lambda>t. c0 + c1 * t)"
    unfolding par by (rule ext) (simp add: atMost_nat_numeral atMost_Suc eval_nat_numeral)
  then show ?thesis
    by (simp add: calib_poly_func_1_def par)
qed

lemma calib_poly_func_2_sum:
  assumes "length par = 3"
  shows "calib_poly_func_2 x par = Inr (nd_map (\<lambda>t. \<Sum>k\<le>2. par ! k * t ^ k) x)"
proof -
  from assms obtain c0 c1 c2 where par: "par = [c0, c1, c2]"
    by (auto simp: length_Suc_conv eval_nat_numeral)
  have "(\<lambda>t. \<Sum>k\<le>2. par ! k * t ^ k) = (\<lambda>t. c0 + c1 * t + c2 * t ^ 2)"
    unfolding par by (rule ext) (simp add: atMost_nat_numeral atMost_Suc eval_nat_numeral)
  then show ?thesis
    by (simp add: calib_poly_func_2_def par)
qed

lemma calib_poly_func_3_sum:
  assumes "length par = 4"
  shows "calib_poly_func_3 x par = Inr (nd_map (\<lambda>t. \<Sum>k\<le>3. par ! k * t ^ k) x)"
proof -
  from assms obtain c0 c1 c2 c3 where par: "par = [c0, c1, c2, c3]"
    by (auto simp: length_Suc_conv eval_nat_numeral)
  have "(\<lambda>t. \<Sum>k\<le>3. par ! k * t ^ k) = (\<lambda>t. c0 + c1 * t + c2 * t ^ 2 + c3 * t ^ 3)"
    unfolding par by (rule ext) (simp add: atMost_nat_numeral atMost_Suc eval_nat_numeral)
  then show ?thesis
    by (simp add: calib_poly_func_3_def par)
qed

lemma calib_poly_func_4_sum:
  assumes "length par = 5"
  shows "calib_poly_func_4 x par = Inr (nd_map (\<lambda>t. \<Sum>k\<le>4. par ! k * t ^ k) x)"
proof -
  from assms obtain c0 c1 c2 c3 c4 where par: "par = [c0, c1, c2, c3, c4]"
    by (auto simp: length_Suc_conv eval_nat_numeral)
  have "(\<lambda>t. \<Sum>k\<le>4. par ! k * t ^ k) = (\<lambda>t. c0 + c1 * t + c2 * t ^ 2 + c3 * t ^ 3 + c4 * t ^ 4)"
    unfolding par by (rule ext) (simp add: atMost_nat_numeral atMost_Suc eval_nat_numeral)
  then show ?thesis
    by (simp add: calib_poly_func_4_def par)
qed

lemma calib_poly_func_5_sum:
  assumes "length par = 6"
  shows "calib_poly_func_5 x par = Inr (nd_map (\<lambda>t. \<Sum>k\<le>5. par ! k * t ^ k) x)"
proof -
  from assms obtain c0 c1 c2 c3 c4 c5 where par: "par = [c0, c1, c2, c3, c4, c5]"
    by (auto simp: length_Suc_conv eval_nat_numeral)
  have "(\<lambda>t. \<Sum>k\<le>5. par ! k * t ^ k) = (\<lambda>t. c0 + c1 * t + c2 * t ^ 2 + c3 * t ^ 3 + c4 * t ^ 4 + c5 * t ^ 5)"
    unfolding par by (rule ext) (simp add: atMost_nat_numeral atMost_Suc eval_nat_numeral)
  then show ?thesis
    by (simp add: calib_poly_func_5_def par)
qed

lemma calib_poly_func_6_sum:
  assumes "length par = 7"
  shows "calib_poly_func_6 x par = Inr (nd_map (\<lambda>t. \<Sum>k\<le>6. par ! k * t ^ k) x)"
proof -
  from assms obtain c0 c1 c2 c3 c4 c5 c6 where par: "par = [c0, c1, c2, c3, c4, c5, c6]"
    by (auto simp: length_Suc_conv eval_nat_numeral)
  have "(\<lambda>t. \<Sum>k\<le>6. par ! k * t ^ k) = (\<lambda>t. c0 + c1 * t + c2 * t ^ 2 + c3 * t ^ 3 + c4 * t ^ 4 + c5 * t ^ 5 + c6 * t ^ 6)"
    unfolding par by (rule ext) (simp add: atMost_nat_numeral atMost_Suc eval_nat_numeral)
  then show ?thesis
    by (simp add: calib_poly_func_6_def par)
qed

lemma calib_poly_func_7_sum:
  assumes "length par = 8"
  shows "calib_poly_func_7 x par = Inr (nd_map (\<lambda>t. \<Sum>k\<le>7. par ! k * t ^ k) x)"
proof -
  from assms obtain c0 c1 c2 c3 c4 c5 c6 c7 where par: "par = [c0, c1, c2, c3, c4, c5, c6, c7]"
    by (auto simp: length_Suc_conv eval_nat_numeral)
  have "(\<lambda>t. \<Sum>k\<le>7. par ! k * t ^ k) = (\<lambda>t. c0 + c1 * t + c2 * t ^ 2 + c3 * t ^ 3 + c4 * t ^ 4 + c5 * t ^ 5 + c6 * t ^ 6 + c7 * t ^ 7)"
    unfolding par by (rule ext) (simp add: atMost_nat_numeral atMost_Suc eval_nat_numeral)
  then show ?thesis
    by (simp add: calib_poly_func_7_def par)
qed

lemma calib_poly_func_8_sum:
  assumes "length par = 9"
  shows "calib_poly_func_8 x par = Inr (nd_map (\<lambda>t. \<Sum>k\<le>8. par ! k * t ^ k) x)"
proof -
  from assms obtain c0 c1 c2 c3 c4 c5 c6 c7 c8 where par: "par = [c0, c1, c2, c3, c4, c5, c6, c7, c8]"
    by (auto simp: length_Suc_conv eval_nat_numeral)
  have "(\<lambda>t. \<Sum>k\<le>8. par ! k * t ^ k) = (\<lambda>t. c0 + c1 * t + c2 * t ^ 2 + c3 * t ^ 3 + c4 * t ^ 4 + c5 * t ^ 5 + c6 * t ^ 6 + c7 * t ^ 7 + c8 * t ^ 8)"
    unfolding par by (rule ext) (simp add: atMost_nat_numeral atMost_Suc eval_nat_numeral)
  then show ?thesis
    by (simp add: calib_poly_func_8_def par)
qed

lemma calib_poly_func_9_sum:
  assumes "length par = 10"
  shows "calib_poly_func_9 x par = Inr (nd_map (\<lambda>t. \<Sum>k\<le>9. par ! k * t ^ k) x)"
proof -
  from assms obtain c0 c1 c2 c3 c4 c5 c6 c7 c8 c9 where par: "par = [c0, c1, c2, c3, c4, c5, c6, c7, c8, c9]"
    by (auto simp: length_Suc_conv eval_nat_numeral)
  have "(\<lambda>t. \<Sum>k\<le>9. par ! k * t ^ k) = (\<lambda>t. c0 + c1 * t + c2 * t ^ 2 + c3 * t ^ 3 + c4 * t ^ 4 + c5 * t ^ 5 + c6 * t ^ 6 + c7 * t ^ 7 + c8 * t ^ 8 + c9 * t ^ 9)"
    unfolding par by (rule ext) (simp add: atMost_nat_numeral atMost_Suc eval_nat_numeral)
  then show ?thesis
    by (simp add: calib_poly_func_9_def par)
qed

lemma get_calib_poly_func_outside:
  "degree < 1 \<or> 9 < degree \<Longrightarrow> get_calib_poly_func degree = Inl AssertionError"
  by (auto simp: get_calib_poly_func_def mem_1_9)

lemma get_calib_poly_func_inside:
  assumes "1 \<le> degree" "degree \<le> 9"
  shows "\<exists>function. get_calib_poly_func degree = Inr function \<and>
           (\<forall>x par. length par = nat degree + 1 \<longrightarrow>
              function x par = Inr (nd_map (\<lambda>t. \<Sum>k\<le>nat degree. par ! k * t ^ k) x))"
proof -
  from assms consider "degree = 1" | "degree = 2" | "degree = 3" | "degree = 4" | "degree = 5"
    | "degree = 6" | "degree = 7" | "degree = 8" | "degree = 9"
    by linarith
  then show ?thesis
  proof cases
    case 1
    then have "get_calib_poly_func degree = Inr calib_poly_func_1"
      by (simp add: get_calib_poly_func_def np_arange_def upto.simps)
    with 1 show ?thesis by (simp add: calib_poly_func_1_sum)
  next
    case 2
    then have "get_calib_poly_func degree = Inr calib_poly_func_2"
      by (simp add: get_calib_poly_func_def np_arange_def upto.simps)
    with 2 show ?thesis by (simp add: calib_poly_func_2_sum)
  next
    case 3
    then have "get_calib_poly_func degree = Inr calib_poly_func_3"
      by (simp add: get_calib_poly_func_def np_arange_def upto.simps)
    with 3 show ?thesis by (simp add: calib_poly_func_3_sum)
  next
    case 4
    then have "get_calib_poly_func degree = Inr calib_poly_func_4"
      by (simp add: get_calib_poly_func_def np_arange_def upto.simps)
    with 4 show ?thesis by (simp add: calib_poly_func_4_sum)
  next
    case 5
    then have "get_calib_poly_func degree = Inr calib_poly_func_5"
      by (simp add: get_calib_poly_func_def np_arange_def upto.simps)
    with 5 show ?thesis by (simp add: calib_poly_func_5_sum)
  next
    case 6
    then have "get_calib_poly_func degree = Inr calib_poly_func_6"
      by (simp add: get_calib_poly_func_def np_arange_def upto.simps)
    with 6 show ?thesis by (simp add: calib_poly_func_6_sum)
  next
    case 7
    then have "get_calib_poly_func degree = Inr calib_poly_func_7"
      by (simp add: get_calib_poly_func_def np_arange_def upto.simps)
    with 7 show ?thesis by (simp add: calib_poly_func_7_sum)
  next
    case 8
    then have "get_calib_poly_func degree = Inr calib_poly_func_8"
      by (simp add: get_calib_poly_func_def np_arange_def upto.simps)
    with 8 show ?thesis by (simp add: calib_poly_func_8_sum)
  next
    case 9
    then have "get_calib_poly_func degree = Inr calib_poly_func_9"
      by (simp add: get_calib_poly_func_def np_arange_def upto.simps)
    with 9 show ?thesis by (simp add: calib_poly_func_9_sum)
  qed
qed

text \<open>
  C8.  A degree below 1 or above 9 ends \<open>get_calib_poly_func\<close> in \<open>AssertionError\<close>: no
  function is returned and nothing catches the error.  For a degree \<open>d\<close> from 1 to 9 the
  lookup returns a function which, called with \<open>d + 1\<close> coefficients, evaluates the sum of
  \<open>c_k x^k\<close> for \<open>k = 0, \<dots>, d\<close>, at a number and at every element of an array.
\<close>

theorem C8_polynomial_lookup:
  "(degree < 1 \<or> 9 < degree \<longrightarrow> get_calib_poly_func degree = Inl AssertionError) \<and>
   (1 \<le> degree \<and> degree \<le> 9 \<longrightarrow>
      (\<exists>function. get_calib_poly_func degree = Inr function \<and>
         (\<forall>x par. length par = nat degree + 1 \<longrightarrow>
            function x par = Inr (nd_map (\<lambda>t. \<Sum>k\<le>nat degree. par ! k * t ^ k) x))))"
  using get_calib_poly_func_outside [of degree] get_calib_poly_func_inside [of degree]
  by blast

text \<open>The theorem of C8 at the degrees 0, 10 and 2.\<close>

theorem C8_polynomial_lookup_witness:
  "get_calib_poly_func 0 = Inl AssertionError \<and> get_calib_poly_func 10 = Inl AssertionError \<and>
   (\<exists>function. get_calib_poly_func 2 = Inr function \<and>
      function (Scalar 3) [1, 2, 1] = Inr (Scalar 16))"
proof -
  from C8_polynomial_lookup [of 0] have a: "get_calib_poly_func 0 = Inl AssertionError"
    by simp
  from C8_polynomial_lookup [of 10] have b: "get_calib_poly_func 10 = Inl AssertionError"
    by simp
  from C8_polynomial_lookup [of 2] obtain poly where f: "get_calib_poly_func 2 = Inr poly"
    and p: "\<forall>x par. length par = nat 2 + 1 \<longrightarrow>
            poly x par = Inr (nd_map (\<lambda>t. \<Sum>k\<le>nat 2. par ! k * t ^ k) x)"
    by auto
  have "length [1, 2, 1 :: real] = nat 2 + 1" by simp
  with p have "poly (Scalar 3) [1, 2, 1] =
      Inr (nd_map (\<lambda>t. \<Sum>k\<le>nat 2. [1, 2, 1] ! k * t ^ k) (Scalar 3))"
    by blast
  also have "\<dots> = Inr (Scalar 16)"
    by (simp add: atMost_Suc eval_nat_numeral)
  finally show ?thesis using a b f by blast
qed







text \<open>
  C6.  In an order where the detector finds fewer than 10 peaks, the only component
  called is the detector (neither the fitter nor the matcher), the entry of the order is
  \<open>[order, [[nan]], [[nan]], [nan]]\<close>, and the loop goes on with the remaining orders.
\<close>

theorem C6_too_few_peaks:
  assumes "np_index (spectrum data) (int order) = Inr data_spec"
    and "np_index (uncertainty data) (int order) = Inr uncertainty_row"
    and "np_index (wavelength data) (int order) = Inr data_wavel"
    and "length (func_find_peaks data_spec 11 0.15) < 10"
  shows "process_order func_find_peaks migrad chi2_sf correct_errors custom_error_factor data order =
           ([Detector], Some (Inr (order, [[NaN]], [[NaN]], [NaN]))) \<and>
         orders_loop func_find_peaks migrad chi2_sf correct_errors custom_error_factor data
             (order # rest) results =
           orders_loop func_find_peaks migrad chi2_sf correct_errors custom_error_factor data
             rest (results @ [(order, [[NaN]], [[NaN]], [NaN])])"
proof -
  from assms
  have "process_order func_find_peaks migrad chi2_sf correct_errors custom_error_factor data order =
           ([Detector], Some (Inr (order, [[NaN]], [[NaN]], [NaN])))"
    by (simp add: process_order_def Let_def)
  then show ?thesis by simp
qed

text \<open>
  The theorem of C6 on an exposure of 76 orders in which the detector finds five peaks in
  every order: all 36 entries are placeholders.
\<close>

theorem C6_too_few_peaks_witness:
  "process_order (\<lambda>y required_dist required_prominence. [3, 20, 41, 60, 77]) stuck_migrad
      (\<lambda>chi2 n. NaN) False None
      \<lparr>spectrum = replicate 76 [], uncertainty = replicate 76 [], wavelength = replicate 76 []\<rparr> 40 =
     ([Detector], Some (Inr (40, [[NaN]], [[NaN]], [NaN]))) \<and>
   fit_all_peaks_in_all_orders (\<lambda>y required_dist required_prominence. [3, 20, 41, 60, 77]) stuck_migrad
      (\<lambda>chi2 n. NaN) False None
      \<lparr>spectrum = replicate 76 [], uncertainty = replicate 76 [], wavelength = replicate 76 []\<rparr> =
     Some (Inr (map (\<lambda>order. (order, [[NaN]], [[NaN]], [NaN])) [40..<76]))"
proof -
  define data where "data = \<lparr>spectrum = replicate 76 ([] :: real list),
    uncertainty = replicate 76 ([] :: real list), wavelength = replicate 76 ([] :: real list)\<rparr>"
  define det where "det = (\<lambda>(y :: real list) (required_dist :: int) (required_prominence :: real).
    [3, 20, 41, 60, 77 :: int])"
  have step: "process_order det stuck_migrad (\<lambda>chi2 n. NaN) False None data order =
           ([Detector], Some (Inr (order, [[NaN]], [[NaN]], [NaN]))) \<and>
      orders_loop det stuck_migrad (\<lambda>chi2 n. NaN) False None data (order # rest) results =
      orders_loop det stuck_migrad (\<lambda>chi2 n. NaN) False None data rest
        (results @ [(order, [[NaN]], [[NaN]], [NaN])])"
    if "order < 76" for order rest results
  proof (rule C6_too_few_peaks)
    show "np_index (spectrum data) (int order) = Inr []"
      using that by (simp add: data_def np_index_def)
    show "np_index (uncertainty data) (int order) = Inr []"
      using that by (simp add: data_def np_index_def)
    show "np_index (wavelength data) (int order) = Inr []"
      using that by (simp add: data_def np_index_def)
    show "length (det [] 11 0.15) < 10"
      by (simp add: det_def)
  qed
  have loop: "orders_loop det stuck_migrad (\<lambda>chi2 n. NaN) False None data [a..<b] results =
      Some (Inr (results @ map (\<lambda>order. (order, [[NaN]], [[NaN]], [NaN])) [a..<b]))"
    if "b \<le> 76" for a b results
    using that
  proof (induction "b - a" arbitrary: a results)
    case 0
    then show ?case by simp
  next
    case (Suc d)
    then have ab: "a < b" and d: "d = b - Suc a" by simp_all
    from ab Suc.prems have "a < 76" by simp
    from step [OF this] Suc.hyps(1) [OF d Suc.prems] ab show ?case
      by (simp add: upt_conv_Cons)
  qed
  have "fit_all_peaks_in_all_orders det stuck_migrad (\<lambda>chi2 n. NaN) False None data =
      Some (Inr (map (\<lambda>order. (order, [[NaN]], [[NaN]], [NaN])) [40..<76]))"
    unfolding fit_all_peaks_in_all_orders_def using loop [of 76 40 "[]"] by simp
  moreover have "process_order det stuck_migrad (\<lambda>chi2 n. NaN) False None data 40 =
           ([Detector], Some (Inr (40, [[NaN]], [[NaN]], [NaN])))"
    using step [of 40] by simp
  ultimately show ?thesis
    unfolding data_def det_def by simp
qed

end
